theory Spec2Isabelle
  imports Main
begin

section \<open>Python values\<close>

text \<open>
  The script \<^verbatim>\<open>scripts/ddg_search.py\<close> is dynamically typed: the records that the search
  library yields, the dictionaries that \<^verbatim>\<open>search\<close> builds and the object handed to
  \<^verbatim>\<open>json.dumps\<close> are plain Python values. They are modelled by one datatype. A dictionary
  is an association list in insertion order (the order \<^verbatim>\<open>json.dumps\<close> prints); its keys
  are strings, as all keys of this script are. \<open>PyObject t\<close> is an object of the type named
  \<open>t\<close> that is none of the others, such as \<^verbatim>\<open>bytes\<close> or a \<^verbatim>\<open>set\<close>: it has no attribute
  \<^verbatim>\<open>get\<close> and no JSON form.

  A \<^typ>\<open>string\<close> stands for a Python \<^verbatim>\<open>str\<close> whose code points are below 256: a
  \<^typ>\<open>char\<close> is one code point.
\<close>

datatype pyval =
    PyNone
  | PyBool bool
  | PyInt int
  | PyStr string
  | PyList "pyval list"
  | PyDict "(string \<times> pyval) list"
  | PyObject string

text \<open>\<^verbatim>\<open>key in d\<close> and \<^verbatim>\<open>d[key]\<close> on a value; nothing is present in a value that is no dictionary.\<close>

fun field :: "pyval \<Rightarrow> string \<Rightarrow> pyval option" where
  "field (PyDict kvs) key = map_of kvs key"
| "field v key = None"

definition present :: "pyval \<Rightarrow> string \<Rightarrow> bool" where
  "present d key = (field d key \<noteq> None)"

fun is_str :: "pyval \<Rightarrow> bool" where
  "is_str (PyStr s) = True"
| "is_str v = False"

fun type_name :: "pyval \<Rightarrow> string" where
  "type_name PyNone = ''NoneType''"
| "type_name (PyBool b) = ''bool''"
| "type_name (PyInt i) = ''int''"
| "type_name (PyStr s) = ''str''"
| "type_name (PyList xs) = ''list''"
| "type_name (PyDict kvs) = ''dict''"
| "type_name (PyObject t) = t"

section \<open>Faults\<close>

text \<open>
  A raised exception is a value. The handler of \<^verbatim>\<open>search\<close> is \<^verbatim>\<open>except Exception as e\<close>, so
  the model keeps the one distinction the handler makes: \<open>Exception msg\<close> is an instance of
  \<^verbatim>\<open>Exception\<close> whose \<^verbatim>\<open>str(e)\<close> is \<open>msg\<close>; \<open>BaseException name\<close> is any other exception
  (\<^verbatim>\<open>KeyboardInterrupt\<close>, \<^verbatim>\<open>SystemExit\<close>, \<^verbatim>\<open>GeneratorExit\<close>), which that handler does not catch.
\<close>

datatype fault = Exception string | BaseException string

section \<open>The search library\<close>

text \<open>
  \<^verbatim>\<open>duckduckgo_search.DDGS\<close> is not part of the repository; it is a parameter of the model.
  One use of it by \<^verbatim>\<open>search\<close> has three observable steps:
  \<^item> \<open>ddgs_enter\<close>: \<^verbatim>\<open>DDGS()\<close> and entering the \<^verbatim>\<open>with\<close> block, which may raise;
  \<^item> \<open>ddgs_text\<close>: the call \<^verbatim>\<open>ddgs.text(query, max_results=max_results)\<close>, which may raise or
    return an iterable; the iterable is given by what iterating it does: yield a value, stop, or
    raise;
  \<^item> \<open>ddgs_exit\<close>: leaving the \<^verbatim>\<open>with\<close> block, which releases the session and may raise.
    The handle does not swallow an exception of the block.
  The iteration is finite, as the library's result sequence is.
\<close>

datatype iterator = StopIteration | Yield pyval iterator | Raise fault

record capability =
  ddgs_enter :: "fault option"
  ddgs_text :: "string \<Rightarrow> int \<Rightarrow> fault + iterator"
  ddgs_exit :: "fault option"

text \<open>The values an iterator yields, in order.\<close>

fun yielded :: "iterator \<Rightarrow> pyval list" where
  "yielded StopIteration = []"
| "yielded (Raise e) = []"
| "yielded (Yield r it) = r # yielded it"

text \<open>The iterator that yields the given values in order and then stops.\<close>

definition yields :: "pyval list \<Rightarrow> iterator" where
  "yields rs = foldr Yield rs StopIteration"

text \<open>A test double: a library that answers every query in the same way.\<close>

definition scripted :: "fault option \<Rightarrow> fault + iterator \<Rightarrow> fault option \<Rightarrow> capability" where
  "scripted en tx ex = \<lparr>ddgs_enter = en, ddgs_text = (\<lambda>query max_results. tx), ddgs_exit = ex\<rparr>"

text \<open>
  Another one: a library that honours the limit, yielding the given value as many times as the
  limit says.
\<close>

definition capped :: "pyval \<Rightarrow> capability" where
  "capped r =
     \<lparr>ddgs_enter = None,
      ddgs_text = (\<lambda>query max_results. Inr (yields (replicate (nat max_results) r))),
      ddgs_exit = None\<rparr>"

section \<open>search\<close>

definition quoted :: "string \<Rightarrow> string" where
  "quoted s = CHR 0x27 # s @ [CHR 0x27]"

text \<open>
  \<^verbatim>\<open>r.get(key, default)\<close>: on a dictionary the stored value, or the default when the key is
  absent; a stored \<^verbatim>\<open>None\<close> is a stored value. The other values of the model have no
  attribute \<^verbatim>\<open>get\<close>, and the lookup raises \<^verbatim>\<open>AttributeError\<close>.
\<close>

definition dict_get :: "(string \<times> pyval) list \<Rightarrow> string \<Rightarrow> pyval \<Rightarrow> pyval" where
  "dict_get kvs key dflt = (case map_of kvs key of None \<Rightarrow> dflt | Some v \<Rightarrow> v)"

fun py_get :: "pyval \<Rightarrow> string \<Rightarrow> pyval \<Rightarrow> fault + pyval" where
  "py_get (PyDict kvs) key dflt = Inr (dict_get kvs key dflt)"
| "py_get r key dflt =
     Inl (Exception (quoted (type_name r) @ '' object has no attribute '' @ quoted ''get''))"

text \<open>Lines 17 to 22: the dictionary appended for one record, its entries evaluated in order.\<close>

definition search_result :: "pyval \<Rightarrow> fault + pyval" where
  "search_result r =
     (case py_get r ''title'' (PyStr '''') of
        Inl e \<Rightarrow> Inl e
      | Inr title \<Rightarrow>
     (case py_get r ''href'' (PyStr '''') of
        Inl e \<Rightarrow> Inl e
      | Inr url \<Rightarrow>
     (case py_get r ''body'' (PyStr '''') of
        Inl e \<Rightarrow> Inl e
      | Inr description \<Rightarrow>
          Inr (PyDict [(''title'', title), (''url'', url), (''description'', description),
                       (''source'', PyStr ''ddg-python'')]))))"

text \<open>What \<open>search_result\<close> builds when the record is a dictionary with the given entries.\<close>

definition result_of :: "(string \<times> pyval) list \<Rightarrow> pyval" where
  "result_of kvs =
     PyDict [(''title'', dict_get kvs ''title'' (PyStr '''')),
             (''url'', dict_get kvs ''href'' (PyStr '''')),
             (''description'', dict_get kvs ''body'' (PyStr '''')),
             (''source'', PyStr ''ddg-python'')]"

text \<open>Lines 15 to 22: the \<^verbatim>\<open>for\<close> loop, with \<open>results\<close> the list built so far.\<close>

fun for_loop :: "iterator \<Rightarrow> pyval list \<Rightarrow> fault + pyval list" where
  "for_loop StopIteration results = Inr results"
| "for_loop (Raise e) results = Inl e"
| "for_loop (Yield r it) results =
     (case search_result r of
        Inl e \<Rightarrow> Inl e
      | Inr x \<Rightarrow> for_loop it (results @ [x]))"

text \<open>Lines 15 to 29: the body of the \<^verbatim>\<open>with\<close> block.\<close>

definition with_body :: "capability \<Rightarrow> string \<Rightarrow> int \<Rightarrow> fault + pyval" where
  "with_body ddgs query max_results =
     (case ddgs_text ddgs query max_results of
        Inl e \<Rightarrow> Inl e
      | Inr it \<Rightarrow>
          (case for_loop it [] of
             Inl e \<Rightarrow> Inl e
           | Inr results \<Rightarrow>
               Inr (PyDict [(''success'', PyBool True), (''query'', PyStr query),
                            (''results'', PyList results),
                            (''count'', PyInt (int (length results)))])))"

text \<open>
  Lines 14 to 29: the \<^verbatim>\<open>with\<close> statement. The session is released after the body, on a return
  as on a raise; a fault of the release replaces the outcome of the body.
\<close>

definition try_block :: "capability \<Rightarrow> string \<Rightarrow> int \<Rightarrow> fault + pyval" where
  "try_block ddgs query max_results =
     (case ddgs_enter ddgs of
        Some e \<Rightarrow> Inl e
      | None \<Rightarrow>
          (let body = with_body ddgs query max_results
           in case ddgs_exit ddgs of Some e \<Rightarrow> Inl e | None \<Rightarrow> body))"

text \<open>Lines 31 to 36: the dictionary returned by the handler, \<open>e\<close> being \<^verbatim>\<open>str(e)\<close>.\<close>

definition failure_response :: "string \<Rightarrow> string \<Rightarrow> pyval" where
  "failure_response query e =
     PyDict [(''success'', PyBool False), (''error'', PyStr e),
             (''query'', PyStr query), (''results'', PyList [])]"

text \<open>
  Lines 11 to 36. \<open>Inr\<close> is the dictionary returned; \<open>Inl\<close> is an exception that leaves the
  call. The limit is always given: the default \<^verbatim>\<open>max_results=20\<close> of the signature is what a
  call without it would pass, and the script's one call, line 46, passes it.
\<close>

definition search :: "capability \<Rightarrow> string \<Rightarrow> int \<Rightarrow> fault + pyval" where
  "search ddgs query max_results =
     (case try_block ddgs query max_results of
        Inr response \<Rightarrow> Inr response
      | Inl (Exception e) \<Rightarrow> Inr (failure_response query e)
      | Inl (BaseException e) \<Rightarrow> Inl (BaseException e))"

section \<open>json.dumps and print\<close>

text \<open>
  \<^verbatim>\<open>json.dumps\<close> with its default separators. A string is written between double quotes,
  with a backslash before a backslash and a double quote, the short escapes for backspace, form
  feed, newline, carriage return and tab, and \<^verbatim>\<open>\u00XX\<close> for the other control characters;
  with \<^verbatim>\<open>ensure_ascii\<close> (the default) every code point outside \<^verbatim>\<open>' '..'~'\<close> is escaped too.
\<close>

definition hex_digit :: "nat \<Rightarrow> char" where
  "hex_digit n = (if n < 10 then char_of (48 + n) else char_of (87 + n))"

definition json_escape :: "bool \<Rightarrow> char \<Rightarrow> string" where
  "json_escape ensure_ascii c =
     (if c = CHR 0x5C then [CHR 0x5C, CHR 0x5C]
      else if c = CHR 0x22 then [CHR 0x5C, CHR 0x22]
      else if c = CHR 0x08 then [CHR 0x5C, CHR ''b'']
      else if c = CHR 0x0C then [CHR 0x5C, CHR ''f'']
      else if c = CHR 0x0A then [CHR 0x5C, CHR ''n'']
      else if c = CHR 0x0D then [CHR 0x5C, CHR ''r'']
      else if c = CHR 0x09 then [CHR 0x5C, CHR ''t'']
      else if of_char c < (32 :: nat) \<or> (ensure_ascii \<and> (126 :: nat) < of_char c)
        then [CHR 0x5C, CHR ''u'', CHR ''0'', CHR ''0'',
              hex_digit (of_char c div 16), hex_digit (of_char c mod 16)]
      else [c])"

definition json_string :: "bool \<Rightarrow> string \<Rightarrow> string" where
  "json_string ensure_ascii s = CHR 0x22 # concat (map (json_escape ensure_ascii) s) @ [CHR 0x22]"

text \<open>\<^verbatim>\<open>sep.join(xs)\<close>.\<close>

definition join :: "string \<Rightarrow> string list \<Rightarrow> string" where
  "join sep xs = (case xs of [] \<Rightarrow> [] | y # ys \<Rightarrow> y @ concat (map (\<lambda>z. sep @ z) ys))"

text \<open>\<^verbatim>\<open>str(n)\<close> for an integer.\<close>

fun nat_str :: "nat \<Rightarrow> string" where
  "nat_str n =
     (if n < 10 then [char_of (48 + n)] else nat_str (n div 10) @ [char_of (48 + n mod 10)])"

declare nat_str.simps [simp del]

definition int_str :: "int \<Rightarrow> string" where
  "int_str i = (if i < 0 then CHR ''-'' # nat_str (nat (- i)) else nat_str (nat i))"

text \<open>
  The text \<^verbatim>\<open>json.dumps\<close> returns, or \<open>None\<close> when it raises \<^verbatim>\<open>TypeError\<close>: the value holds
  an object that has no JSON form.
\<close>

primrec json_dumps :: "bool \<Rightarrow> pyval \<Rightarrow> string option" where
  "json_dumps ensure_ascii PyNone = Some ''null''"
| "json_dumps ensure_ascii (PyBool b) = Some (if b then ''true'' else ''false'')"
| "json_dumps ensure_ascii (PyInt i) = Some (int_str i)"
| "json_dumps ensure_ascii (PyStr s) = Some (json_string ensure_ascii s)"
| "json_dumps ensure_ascii (PyList xs) =
     map_option (\<lambda>items. ''['' @ join '', '' items @ '']'')
       (those (map (json_dumps ensure_ascii) xs))"
| "json_dumps ensure_ascii (PyDict kvs) =
     map_option (\<lambda>items. ''{'' @ join '', '' items @ ''}'')
       (those (map (\<lambda>kv. map_option (\<lambda>v. json_string ensure_ascii (fst kv) @ '': '' @ v) (snd kv))
          (map (map_prod id (json_dumps ensure_ascii)) kvs)))"
| "json_dumps ensure_ascii (PyObject t) = None"

text \<open>
  Standard output has an encoding, which belongs to the environment of the process and not to
  the script. It is given by the code points from 128 on that it can encode; every encoding
  writes the code points below 128. \<^verbatim>\<open>print(s)\<close> encodes the whole text before it writes:
  when a code point cannot be encoded it raises \<^verbatim>\<open>UnicodeEncodeError\<close> and writes nothing,
  otherwise the text and a newline are written. Standard output is taken to accept what is
  written to it.
\<close>

definition encodes :: "(char \<Rightarrow> bool) \<Rightarrow> char \<Rightarrow> bool" where
  "encodes enc c = (of_char c < (128 :: nat) \<or> enc c)"

definition print :: "(char \<Rightarrow> bool) \<Rightarrow> string \<Rightarrow> string option" where
  "print enc s = (if list_all (encodes enc) s then Some (s @ [CHR 0x0A]) else None)"

text \<open>Two encodings: UTF-8 writes every code point, ASCII none from 128 on.\<close>

definition utf_8 :: "char \<Rightarrow> bool" where
  "utf_8 c = True"

definition ascii :: "char \<Rightarrow> bool" where
  "ascii c = False"

section \<open>int\<close>

text \<open>
  \<^verbatim>\<open>int(s)\<close> for a string, base 10, as CPython 3 reads it: white space around the literal is
  skipped (tab, line feed, vertical tab, form feed, carriage return, space and, of the code
  points below 256, also \<^verbatim>\<open>\x85\<close> and \<^verbatim>\<open>\xa0\<close>), then an optional sign, then decimal digits
  with single underscores allowed between two digits. Anything else raises \<^verbatim>\<open>ValueError\<close>,
  which is \<open>None\<close> here. So does a literal with more digits than the interpreter's limit,
  leading zeros counted and underscores not; the limit is the interpreter's default of 4300,
  which the script does not change.
\<close>

definition int_max_str_digits :: nat where
  "int_max_str_digits = 4300"

definition is_space :: "char \<Rightarrow> bool" where
  "is_space c = (of_char c \<in> {9, 10, 11, 12, 13, 32, 133, 160 :: nat})"

definition is_digit :: "char \<Rightarrow> bool" where
  "is_digit c = ((48 :: nat) \<le> of_char c \<and> of_char c \<le> (57 :: nat))"

definition digit_of :: "char \<Rightarrow> nat" where
  "digit_of c = of_char c - 48"

fun digits_value :: "string \<Rightarrow> nat \<Rightarrow> nat option" where
  "digits_value [] acc = Some acc"
| "digits_value (c # cs) acc =
     (if is_digit c then digits_value cs (10 * acc + digit_of c)
      else if c = CHR ''_'' then
        (case cs of
           [] \<Rightarrow> None
         | d # ds \<Rightarrow> if is_digit d then digits_value ds (10 * acc + digit_of d) else None)
      else None)"

definition decimal :: "string \<Rightarrow> nat option" where
  "decimal s =
     (if int_max_str_digits < length (filter is_digit s) then None
      else case s of
        [] \<Rightarrow> None
      | c # cs \<Rightarrow> if is_digit c then digits_value cs (digit_of c) else None)"

definition strip :: "string \<Rightarrow> string" where
  "strip s = rev (dropWhile is_space (rev (dropWhile is_space s)))"

definition py_int :: "string \<Rightarrow> int option" where
  "py_int s =
     (case strip s of
        [] \<Rightarrow> None
      | c # cs \<Rightarrow>
          if c = CHR ''-'' then map_option (\<lambda>n. - int n) (decimal cs)
          else if c = CHR ''+'' then map_option int (decimal cs)
          else map_option int (decimal (c # cs)))"

section \<open>The entry point\<close>

text \<open>
  One run of the script, lines 38 to 47, with the library imported. \<open>enc\<close> is the encoding
  of standard output and \<open>argv\<close> is \<^verbatim>\<open>sys.argv\<close>: the script's name, then the command-line
  arguments. The run is described by the calls of \<^verbatim>\<open>search\<close> it made, the text it wrote to
  standard output, and how the process ended: by \<^verbatim>\<open>sys.exit(n)\<close> or by reaching the end of
  the script (\<open>Exit 0\<close>), or by an exception that nothing caught: the \<^verbatim>\<open>ValueError\<close> of
  \<^verbatim>\<open>int\<close> on the given text, the \<^verbatim>\<open>TypeError\<close> of \<^verbatim>\<open>json.dumps\<close>, the
  \<^verbatim>\<open>UnicodeEncodeError\<close> of \<^verbatim>\<open>print\<close>, or an exception that left \<^verbatim>\<open>search\<close>.
\<close>

datatype ending =
    Exit nat
  | Uncaught_ValueError string
  | Uncaught_TypeError
  | Uncaught_UnicodeEncodeError
  | Uncaught fault

record process =
  searches :: "(string \<times> int) list"
  stdout :: string
  ending :: ending

text \<open>
  The exit status of the process. The interpreter prints the traceback of an uncaught
  \<^verbatim>\<open>Exception\<close> to standard error and exits with status 1. For the other exceptions the status
  depends on the exception (\<^verbatim>\<open>SystemExit\<close> carries its own, \<^verbatim>\<open>KeyboardInterrupt\<close> ends the
  interpreter by a signal) and is not modelled.
\<close>

fun exit_status :: "ending \<Rightarrow> nat option" where
  "exit_status (Exit n) = Some n"
| "exit_status (Uncaught_ValueError s) = Some 1"
| "exit_status Uncaught_TypeError = Some 1"
| "exit_status Uncaught_UnicodeEncodeError = Some 1"
| "exit_status (Uncaught (Exception e)) = Some 1"
| "exit_status (Uncaught (BaseException e)) = None"

text \<open>
  \<^verbatim>\<open>print(json.dumps(v, ensure_ascii=...))\<close>, lines 40 and 47: the text written, or the
  exception that ends the run.
\<close>

definition print_json :: "(char \<Rightarrow> bool) \<Rightarrow> bool \<Rightarrow> pyval \<Rightarrow> ending + string" where
  "print_json enc ensure_ascii v =
     (case json_dumps ensure_ascii v of
        None \<Rightarrow> Inl Uncaught_TypeError
      | Some s \<Rightarrow>
          (case print enc s of
             None \<Rightarrow> Inl Uncaught_UnicodeEncodeError
           | Some written \<Rightarrow> Inr written))"

text \<open>Line 44: the limit, from the second argument when there is one.\<close>

definition max_results_arg :: "string list \<Rightarrow> int option" where
  "max_results_arg argv = (if length argv > 2 then py_int (argv ! 2) else Some 20)"

definition main :: "capability \<Rightarrow> (char \<Rightarrow> bool) \<Rightarrow> string list \<Rightarrow> process" where
  "main ddgs enc argv =
     (if length argv < 2 then
        (case print_json enc True (PyDict [(''error'', PyStr ''No query provided'')]) of
           Inl uncaught \<Rightarrow> \<lparr>searches = [], stdout = [], ending = uncaught\<rparr>
         | Inr written \<Rightarrow> \<lparr>searches = [], stdout = written, ending = Exit 1\<rparr>)
      else
        (let query = argv ! 1 in
         case max_results_arg argv of
           None \<Rightarrow> \<lparr>searches = [], stdout = [], ending = Uncaught_ValueError (argv ! 2)\<rparr>
         | Some max_results \<Rightarrow>
             (case search ddgs query max_results of
                Inl e \<Rightarrow>
                  \<lparr>searches = [(query, max_results)], stdout = [], ending = Uncaught e\<rparr>
              | Inr result \<Rightarrow>
                  (case print_json enc False result of
                     Inl uncaught \<Rightarrow>
                       \<lparr>searches = [(query, max_results)], stdout = [], ending = uncaught\<rparr>
                   | Inr written \<Rightarrow>
                       \<lparr>searches = [(query, max_results)], stdout = written,
                        ending = Exit 0\<rparr>))))"

section \<open>Properties of search\<close>

subsection \<open>The loop\<close>

lemma search_result_dict: "search_result (PyDict kvs) = Inr (result_of kvs)"
  by (simp add: search_result_def result_of_def)

lemma search_result_Inr:
  "search_result r = Inr x \<Longrightarrow> \<exists>kvs. r = PyDict kvs \<and> x = result_of kvs"
  by (cases r) (simp_all add: search_result_def result_of_def)

lemma search_result_other:
  "\<forall>kvs. r \<noteq> PyDict kvs \<Longrightarrow>
   search_result r =
     Inl (Exception (quoted (type_name r) @ '' object has no attribute '' @ quoted ''get''))"
  by (cases r) (simp_all add: search_result_def)

lemma for_loop_dicts:
  "for_loop (foldr Yield (map PyDict ds) it) acc = for_loop it (acc @ map result_of ds)"
  by (induction ds arbitrary: acc) (simp_all add: search_result_dict)

lemma for_loop_origin:
  "for_loop it acc = Inr xs \<Longrightarrow> x \<in> set xs \<Longrightarrow>
   x \<in> set acc \<or> (\<exists>kvs. PyDict kvs \<in> set (yielded it) \<and> x = result_of kvs)"
proof (induction it arbitrary: acc)
  case StopIteration
  then show ?case by simp
next
  case (Yield r it)
  from Yield.prems(1) obtain y
    where y: "search_result r = Inr y" and rest: "for_loop it (acc @ [y]) = Inr xs"
    by (auto split: sum.splits)
  from search_result_Inr [OF y] obtain kvs where r: "r = PyDict kvs" "y = result_of kvs"
    by blast
  from Yield.IH [OF rest Yield.prems(2)] show ?case
    using r by auto
next
  case (Raise e)
  then show ?case by simp
qed

lemma for_loop_raise: "for_loop (foldr Yield (map PyDict ds) (Raise e)) acc = Inl e"
  by (simp add: for_loop_dicts)

lemma for_loop_bad_record:
  "\<forall>kvs. r \<noteq> PyDict kvs \<Longrightarrow>
   for_loop (foldr Yield (map PyDict ds) (Yield r it)) acc =
     Inl (Exception (quoted (type_name r) @ '' object has no attribute '' @ quoted ''get''))"
  by (simp add: for_loop_dicts search_result_other)

text \<open>The two dictionaries \<open>search\<close> can return.\<close>

lemma search_cases:
  "search ddgs query n = Inr response \<Longrightarrow>
   (\<exists>e. response = PyDict [(''success'', PyBool False), (''error'', PyStr e),
                          (''query'', PyStr query), (''results'', PyList [])]) \<or>
   (\<exists>it results. ddgs_text ddgs query n = Inr it \<and> for_loop it [] = Inr results \<and>
      response = PyDict [(''success'', PyBool True), (''query'', PyStr query),
                         (''results'', PyList results),
                         (''count'', PyInt (int (length results)))])"
  by (auto simp: search_def try_block_def with_body_def failure_response_def Let_def
           split: sum.splits option.splits fault.splits)

subsection \<open>The success path\<close>

text \<open>
  C1. When the session is acquired, \<^verbatim>\<open>ddgs.text(query, max_results=n)\<close> yields the \<open>k\<close> records
  \<open>ds\<close> (dictionaries) and then stops, and the session is released, all without a fault, then
  \<open>search\<close> returns the dictionary with \<open>success\<close> true, \<open>query\<close> the input, \<open>results\<close> the
  list of the \<open>k\<close> normalised records in the order they were yielded, and \<open>count = k\<close>. This
  holds for every query and every \<open>n\<close>: the query need not be non-empty, \<open>n\<close> need not be
  positive, and \<open>k \<le> n\<close> is not needed.
\<close>

theorem search_success:
  assumes "ddgs_enter ddgs = None"
    and "ddgs_text ddgs query n = Inr (yields (map PyDict ds))"
    and "ddgs_exit ddgs = None"
  shows "search ddgs query n =
    Inr (PyDict [(''success'', PyBool True), (''query'', PyStr query),
                 (''results'', PyList (map result_of ds)),
                 (''count'', PyInt (int (length ds)))])"
  using assms
  by (simp add: search_def try_block_def with_body_def yields_def for_loop_dicts)

theorem search_success_witness:
  "search (scripted None (Inr (yields (map PyDict
       [[(''title'', PyStr ''A''), (''href'', PyStr ''http://a''), (''body'', PyStr ''first'')],
        [(''title'', PyStr ''B''), (''href'', PyStr ''http://b''), (''body'', PyStr ''second'')],
        [(''title'', PyStr ''C'')]]))) None) ''test'' 5 =
   Inr (PyDict [(''success'', PyBool True), (''query'', PyStr ''test''),
     (''results'', PyList
        [PyDict [(''title'', PyStr ''A''), (''url'', PyStr ''http://a''),
                 (''description'', PyStr ''first''), (''source'', PyStr ''ddg-python'')],
         PyDict [(''title'', PyStr ''B''), (''url'', PyStr ''http://b''),
                 (''description'', PyStr ''second''), (''source'', PyStr ''ddg-python'')],
         PyDict [(''title'', PyStr ''C''), (''url'', PyStr ''''),
                 (''description'', PyStr ''''), (''source'', PyStr ''ddg-python'')]]),
     (''count'', PyInt 3)])"
  using search_success [of "scripted None (Inr (yields (map PyDict
       [[(''title'', PyStr ''A''), (''href'', PyStr ''http://a''), (''body'', PyStr ''first'')],
        [(''title'', PyStr ''B''), (''href'', PyStr ''http://b''), (''body'', PyStr ''second'')],
        [(''title'', PyStr ''C'')]]))) None" "''test''" 5
       "[[(''title'', PyStr ''A''), (''href'', PyStr ''http://a''), (''body'', PyStr ''first'')],
        [(''title'', PyStr ''B''), (''href'', PyStr ''http://b''), (''body'', PyStr ''second'')],
        [(''title'', PyStr ''C'')]]"]
  by (simp add: scripted_def result_of_def dict_get_def)

subsection \<open>The shape of a response\<close>

text \<open>
  C4. Every dictionary returned by \<open>search\<close> has a boolean \<open>success\<close>; the key \<open>count\<close> is
  present exactly when \<open>success\<close> is true, the key \<open>error\<close> exactly when it is false, so exactly
  one of the two keys is present.
\<close>

theorem response_shape:
  assumes "search ddgs query n = Inr response"
  shows "\<exists>b. field response ''success'' = Some (PyBool b) \<and>
             present response ''count'' = b \<and>
             present response ''error'' = (\<not> b) \<and>
             present response ''count'' \<noteq> present response ''error''"
  using search_cases [OF assms] by (auto simp: present_def)

theorem response_shape_witness:
  "search (scripted None (Inl (Exception ''timed out'')) None) ''test'' 20 =
     Inr (PyDict [(''success'', PyBool False), (''error'', PyStr ''timed out''),
                  (''query'', PyStr ''test''), (''results'', PyList [])]) \<and>
   present (PyDict [(''success'', PyBool False), (''error'', PyStr ''timed out''),
                    (''query'', PyStr ''test''), (''results'', PyList [])]) ''error'' \<and>
   \<not> present (PyDict [(''success'', PyBool False), (''error'', PyStr ''timed out''),
                      (''query'', PyStr ''test''), (''results'', PyList [])]) ''count''"
proof -
  have run: "search (scripted None (Inl (Exception ''timed out'')) None) ''test'' 20 =
     Inr (PyDict [(''success'', PyBool False), (''error'', PyStr ''timed out''),
                  (''query'', PyStr ''test''), (''results'', PyList [])])"
    by (simp add: search_def try_block_def with_body_def scripted_def failure_response_def)
  from response_shape [OF run] show ?thesis
    using run by simp
qed

text \<open>
  C5. Every dictionary returned by \<open>search\<close>, on the success path and on the failure path,
  carries the input query unchanged under the key \<open>query\<close>.
\<close>

theorem query_echo:
  assumes "search ddgs query n = Inr response"
  shows "field response ''query'' = Some (PyStr query)"
  using search_cases [OF assms] by auto

theorem query_echo_witness:
  "search (scripted None (Inr (yields [PyDict [(''title'', PyStr ''A'')]]))
      (Some (Exception ''close failed''))) ''two words'' 20 =
     Inr (PyDict [(''success'', PyBool False), (''error'', PyStr ''close failed''),
                  (''query'', PyStr ''two words''), (''results'', PyList [])]) \<and>
   field (PyDict [(''success'', PyBool False), (''error'', PyStr ''close failed''),
                  (''query'', PyStr ''two words''), (''results'', PyList [])]) ''query'' =
     Some (PyStr ''two words'')"
proof -
  have run: "search (scripted None (Inr (yields [PyDict [(''title'', PyStr ''A'')]]))
      (Some (Exception ''close failed''))) ''two words'' 20 =
     Inr (PyDict [(''success'', PyBool False), (''error'', PyStr ''close failed''),
                  (''query'', PyStr ''two words''), (''results'', PyList [])])"
    by (simp add: search_def try_block_def with_body_def scripted_def failure_response_def)
  from query_echo [OF run] show ?thesis
    using run by simp
qed

subsection \<open>The failure path\<close>

text \<open>
  C2, as the code has it. The handler catches the instances of \<^verbatim>\<open>Exception\<close> and reports
  \<^verbatim>\<open>str(e)\<close>. When such a fault with text \<open>e\<close> is raised on acquiring the session, on
  releasing it, by the call of \<^verbatim>\<open>ddgs.text\<close>, by the iteration after any number of records, or
  by the field access on a yielded value that is no dictionary, \<open>search\<close> returns the
  dictionary with \<open>success\<close> false, the text \<open>e\<close> under \<open>error\<close>, the input query, and the
  empty list of results: the records iterated before the fault are dropped. The text is the
  fault's own and may be empty. No instance of \<^verbatim>\<open>Exception\<close> leaves the call.
\<close>

theorem search_failure:
  "(ddgs_enter ddgs = Some (Exception e) \<longrightarrow>
      search ddgs query n = Inr (failure_response query e)) \<and>
   (ddgs_enter ddgs = None \<and> ddgs_exit ddgs = Some (Exception e) \<longrightarrow>
      search ddgs query n = Inr (failure_response query e)) \<and>
   (ddgs_enter ddgs = None \<and> ddgs_exit ddgs = None \<and>
    ddgs_text ddgs query n = Inl (Exception e) \<longrightarrow>
      search ddgs query n = Inr (failure_response query e)) \<and>
   (ddgs_enter ddgs = None \<and> ddgs_exit ddgs = None \<and>
    ddgs_text ddgs query n = Inr (foldr Yield (map PyDict ds) (Raise (Exception e))) \<longrightarrow>
      search ddgs query n = Inr (failure_response query e)) \<and>
   (ddgs_enter ddgs = None \<and> ddgs_exit ddgs = None \<and> (\<forall>kvs. r \<noteq> PyDict kvs) \<and>
    ddgs_text ddgs query n = Inr (foldr Yield (map PyDict ds) (Yield r it)) \<longrightarrow>
      search ddgs query n =
        Inr (failure_response query
               (quoted (type_name r) @ '' object has no attribute '' @ quoted ''get''))) \<and>
   search ddgs query n \<noteq> Inl (Exception e)"
  by (auto simp: search_def try_block_def with_body_def for_loop_raise for_loop_bad_record Let_def
      split: sum.splits option.splits fault.splits)

theorem search_failure_witness:
  "search (scripted (Some (Exception ''no network'')) (Inr StopIteration) None) ''test'' 20 =
     Inr (failure_response ''test'' ''no network'') \<and>
   search (scripted None (Inr StopIteration) (Some (Exception ''close failed''))) ''test'' 20 =
     Inr (failure_response ''test'' ''close failed'') \<and>
   search (scripted None (Inl (Exception ''bad request'')) None) ''test'' 20 =
     Inr (failure_response ''test'' ''bad request'') \<and>
   search (scripted None
      (Inr (Yield (PyDict [(''title'', PyStr ''A'')]) (Raise (Exception ''rate limit'')))) None)
      ''test'' 20 =
     Inr (failure_response ''test'' ''rate limit'') \<and>
   search (scripted None
      (Inr (Yield (PyDict [(''title'', PyStr ''A'')]) (Yield PyNone StopIteration))) None)
      ''test'' 20 =
     Inr (failure_response ''test''
            (quoted ''NoneType'' @ '' object has no attribute '' @ quoted ''get''))"
  using
    search_failure [where ddgs = "scripted (Some (Exception ''no network'')) (Inr StopIteration) None"
      and e = "''no network''" and query = "''test''" and n = 20]
    search_failure [where ddgs = "scripted None (Inr StopIteration) (Some (Exception ''close failed''))"
      and e = "''close failed''" and query = "''test''" and n = 20]
    search_failure [where ddgs = "scripted None (Inl (Exception ''bad request'')) None"
      and e = "''bad request''" and query = "''test''" and n = 20]
    search_failure [where ddgs = "scripted None
        (Inr (Yield (PyDict [(''title'', PyStr ''A'')]) (Raise (Exception ''rate limit'')))) None"
      and e = "''rate limit''" and query = "''test''" and n = 20
      and ds = "[[(''title'', PyStr ''A'')]]"]
    search_failure [where ddgs = "scripted None
        (Inr (Yield (PyDict [(''title'', PyStr ''A'')]) (Yield PyNone StopIteration))) None"
      and query = "''test''" and n = 20 and r = PyNone
      and ds = "[[(''title'', PyStr ''A'')]]" and it = StopIteration]
  by (simp add: scripted_def)

text \<open>
  The claim as stated fails twice: a fault whose text is empty is reported with an empty
  \<open>error\<close>, and an exception outside \<^verbatim>\<open>Exception\<close> leaves the call.
\<close>

theorem search_failure_counterexample:
  "search (scripted None (Inl (Exception '''')) None) ''test'' 20 =
     Inr (PyDict [(''success'', PyBool False), (''error'', PyStr ''''),
                  (''query'', PyStr ''test''), (''results'', PyList [])]) \<and>
   search (scripted None (Inl (BaseException ''KeyboardInterrupt'')) None) ''test'' 20 =
     Inl (BaseException ''KeyboardInterrupt'')"
  by (simp add: search_def try_block_def with_body_def scripted_def failure_response_def)

subsection \<open>The normalised records\<close>

lemma dict_get_absent: "map_of kvs key = None \<Longrightarrow> dict_get kvs key dflt = dflt"
  by (simp add: dict_get_def)

lemma dict_get_str:
  "is_str dflt \<Longrightarrow> \<forall>v. map_of kvs key = Some v \<longrightarrow> is_str v \<Longrightarrow> is_str (dict_get kvs key dflt)"
  by (simp add: dict_get_def split: option.splits)

text \<open>
  C3, as the code has it. Every element of the \<open>results\<close> of a returned dictionary was built
  from a dictionary \<open>kvs\<close> that the library yielded for this request. It has exactly the four
  keys \<open>title\<close>, \<open>url\<close>, \<open>description\<close> and \<open>source\<close>, and \<open>source\<close> is the string
  \<open>ddg-python\<close>. Each of the other three is the value stored upstream under \<open>title\<close>,
  \<open>href\<close>, \<open>body\<close>: the empty string when the key is absent upstream, and a string whenever
  the value stored upstream, if there is one, is a string.
\<close>

theorem search_result_fields:
  assumes "search ddgs query n = Inr response"
    and "field response ''results'' = Some (PyList xs)"
    and "x \<in> set xs"
  shows "\<exists>it kvs. ddgs_text ddgs query n = Inr it \<and> PyDict kvs \<in> set (yielded it) \<and>
      x = PyDict [(''title'', dict_get kvs ''title'' (PyStr '''')),
                  (''url'', dict_get kvs ''href'' (PyStr '''')),
                  (''description'', dict_get kvs ''body'' (PyStr '''')),
                  (''source'', PyStr ''ddg-python'')] \<and>
      (\<forall>key \<in> {''title'', ''href'', ''body''}.
         (map_of kvs key = None \<longrightarrow> dict_get kvs key (PyStr '''') = PyStr '''') \<and>
         ((\<forall>v. map_of kvs key = Some v \<longrightarrow> is_str v) \<longrightarrow>
            is_str (dict_get kvs key (PyStr ''''))))"
proof -
  from search_cases [OF assms(1)] assms(2,3)
  obtain it where it: "ddgs_text ddgs query n = Inr it" and loop: "for_loop it [] = Inr xs"
    by auto
  from for_loop_origin [OF loop assms(3)]
  obtain kvs where kvs: "PyDict kvs \<in> set (yielded it)" "x = result_of kvs"
    by auto
  have "\<forall>key \<in> {''title'', ''href'', ''body''}.
         (map_of kvs key = None \<longrightarrow> dict_get kvs key (PyStr '''') = PyStr '''') \<and>
         ((\<forall>v. map_of kvs key = Some v \<longrightarrow> is_str v) \<longrightarrow>
            is_str (dict_get kvs key (PyStr '''')))"
    using dict_get_absent dict_get_str by simp
  with it kvs show ?thesis
    unfolding result_of_def by blast
qed

theorem search_result_fields_witness:
  "search (scripted None (Inr (yields
       [PyDict [(''title'', PyStr ''A''), (''href'', PyStr ''http://a'')]])) None) ''test'' 20 =
     Inr (PyDict [(''success'', PyBool True), (''query'', PyStr ''test''),
        (''results'', PyList
           [PyDict [(''title'', PyStr ''A''), (''url'', PyStr ''http://a''),
                    (''description'', PyStr ''''), (''source'', PyStr ''ddg-python'')]]),
        (''count'', PyInt 1)]) \<and>
   (\<exists>kvs. PyDict kvs \<in> set (yielded (yields
       [PyDict [(''title'', PyStr ''A''), (''href'', PyStr ''http://a'')]])) \<and>
      PyDict [(''title'', PyStr ''A''), (''url'', PyStr ''http://a''),
              (''description'', PyStr ''''), (''source'', PyStr ''ddg-python'')] =
      PyDict [(''title'', dict_get kvs ''title'' (PyStr '''')),
              (''url'', dict_get kvs ''href'' (PyStr '''')),
              (''description'', dict_get kvs ''body'' (PyStr '''')),
              (''source'', PyStr ''ddg-python'')])"
proof -
  have run: "search (scripted None (Inr (yields
       [PyDict [(''title'', PyStr ''A''), (''href'', PyStr ''http://a'')]])) None) ''test'' 20 =
     Inr (PyDict [(''success'', PyBool True), (''query'', PyStr ''test''),
        (''results'', PyList
           [PyDict [(''title'', PyStr ''A''), (''url'', PyStr ''http://a''),
                    (''description'', PyStr ''''), (''source'', PyStr ''ddg-python'')]]),
        (''count'', PyInt 1)])"
    by (simp add: search_def try_block_def with_body_def scripted_def yields_def
        search_result_dict result_of_def dict_get_def)
  have res: "field (PyDict [(''success'', PyBool True), (''query'', PyStr ''test''),
        (''results'', PyList
           [PyDict [(''title'', PyStr ''A''), (''url'', PyStr ''http://a''),
                    (''description'', PyStr ''''), (''source'', PyStr ''ddg-python'')]]),
        (''count'', PyInt 1)]) ''results'' = Some (PyList
           [PyDict [(''title'', PyStr ''A''), (''url'', PyStr ''http://a''),
                    (''description'', PyStr ''''), (''source'', PyStr ''ddg-python'')]])"
    by simp
  have mem: "PyDict [(''title'', PyStr ''A''), (''url'', PyStr ''http://a''),
                    (''description'', PyStr ''''), (''source'', PyStr ''ddg-python'')] \<in> set
           [PyDict [(''title'', PyStr ''A''), (''url'', PyStr ''http://a''),
                    (''description'', PyStr ''''), (''source'', PyStr ''ddg-python'')]]"
    by simp
  from search_result_fields [OF run res mem] show ?thesis
    using run by (auto simp: scripted_def)
qed

text \<open>
  The claim as stated fails for a record that has the key with the value \<^verbatim>\<open>None\<close>:
  \<^verbatim>\<open>r.get('title', '')\<close> returns the stored \<^verbatim>\<open>None\<close>, and the result's \<open>title\<close> is no string.
\<close>

theorem search_result_fields_counterexample:
  "search (scripted None (Inr (yields
       [PyDict [(''title'', PyNone), (''href'', PyStr ''http://a'')]])) None) ''test'' 20 =
     Inr (PyDict [(''success'', PyBool True), (''query'', PyStr ''test''),
        (''results'', PyList
           [PyDict [(''title'', PyNone), (''url'', PyStr ''http://a''),
                    (''description'', PyStr ''''), (''source'', PyStr ''ddg-python'')]]),
        (''count'', PyInt 1)]) \<and>
   \<not> is_str PyNone"
  by (simp add: search_def try_block_def with_body_def scripted_def yields_def
        search_result_dict result_of_def dict_get_def)

section \<open>Properties of the entry point\<close>

subsection \<open>Some runs of the parts\<close>

lemma print_no_query:
  \<open>print_json enc True (PyDict [(''error'', PyStr ''No query provided'')]) =
     Inr (''{"error": "No query provided"}'' @ [CHR 0x0A])\<close>
  by (simp add: print_json_def print_def encodes_def join_def json_string_def json_escape_def)

lemma py_int_abc: "py_int ''abc'' = None"
  by (simp add: py_int_def strip_def is_space_def decimal_def is_digit_def int_max_str_digits_def)

lemma py_int_2: "py_int ''2'' = Some 2"
  by (simp add: py_int_def strip_def is_space_def decimal_def is_digit_def digit_of_def
      int_max_str_digits_def)










lemma capped_run:
  "search (capped (PyDict [(''title'', PyStr ''A'')])) ''test'' 2 =
     Inr (PyDict [(''success'', PyBool True), (''query'', PyStr ''test''),
        (''results'', PyList
           [PyDict [(''title'', PyStr ''A''), (''url'', PyStr ''''),
                    (''description'', PyStr ''''), (''source'', PyStr ''ddg-python'')],
            PyDict [(''title'', PyStr ''A''), (''url'', PyStr ''''),
                    (''description'', PyStr ''''), (''source'', PyStr ''ddg-python'')]]),
        (''count'', PyInt 2)])"
  by (simp add: search_def try_block_def with_body_def capped_def yields_def
      search_result_dict result_of_def dict_get_def numeral_2_eq_2)


subsection \<open>The usage error\<close>

text \<open>
  C6. Without a query argument (\<^verbatim>\<open>sys.argv\<close> shorter than 2) the run calls \<open>search\<close> not at
  all, whatever the library would do, writes exactly the line
  \<^verbatim>\<open>{"error": "No query provided"}\<close> to standard output, whatever its encoding, and ends with
  exit status 1.
\<close>

theorem main_no_query:
  \<open>length argv < 2 \<Longrightarrow>
   main ddgs enc argv =
     \<lparr>searches = [], stdout = ''{"error": "No query provided"}'' @ [CHR 0x0A], ending = Exit 1\<rparr> \<and>
   exit_status (ending (main ddgs enc argv)) = Some 1\<close>
  by (simp add: main_def print_no_query)

theorem main_no_query_witness:
  \<open>main (scripted None (Inr (yields [PyDict [(''title'', PyStr ''A'')]])) None) ascii
      [''ddg_search.py''] =
     \<lparr>searches = [], stdout = ''{"error": "No query provided"}'' @ [CHR 0x0A], ending = Exit 1\<rparr> \<and>
   exit_status (ending
     (main (scripted None (Inr (yields [PyDict [(''title'', PyStr ''A'')]])) None) ascii
        [''ddg_search.py''])) = Some 1\<close>
  using main_no_query [of "[''ddg_search.py'']"
    "scripted None (Inr (yields [PyDict [(''title'', PyStr ''A'')]])) None" ascii]
  by simp

subsection \<open>Exit status\<close>




subsection \<open>The limit\<close>

text \<open>
  C8. With a query and no second argument the run is the call \<open>search ddgs query 20\<close> and
  what lines 46 and 47 make of its outcome: the search is performed once, with the limit 20.
  With a second argument that \<^verbatim>\<open>int\<close> reads as \<open>n\<close>, the run is in the same way the call
  \<open>search ddgs query n\<close>.
\<close>

theorem main_max_results:
  "main ddgs enc [script, query] =
     (case search ddgs query 20 of
        Inl e \<Rightarrow> \<lparr>searches = [(query, 20)], stdout = [], ending = Uncaught e\<rparr>
      | Inr result \<Rightarrow>
          (case json_dumps False result of
             None \<Rightarrow> \<lparr>searches = [(query, 20)], stdout = [], ending = Uncaught_TypeError\<rparr>
           | Some s \<Rightarrow>
               (case print enc s of
                  None \<Rightarrow>
                    \<lparr>searches = [(query, 20)], stdout = [],
                     ending = Uncaught_UnicodeEncodeError\<rparr>
                | Some written \<Rightarrow>
                    \<lparr>searches = [(query, 20)], stdout = written, ending = Exit 0\<rparr>))) \<and>
   (py_int a = Some n \<longrightarrow>
    main ddgs enc (script # query # a # rest) =
     (case search ddgs query n of
        Inl e \<Rightarrow> \<lparr>searches = [(query, n)], stdout = [], ending = Uncaught e\<rparr>
      | Inr result \<Rightarrow>
          (case json_dumps False result of
             None \<Rightarrow> \<lparr>searches = [(query, n)], stdout = [], ending = Uncaught_TypeError\<rparr>
           | Some s \<Rightarrow>
               (case print enc s of
                  None \<Rightarrow>
                    \<lparr>searches = [(query, n)], stdout = [],
                     ending = Uncaught_UnicodeEncodeError\<rparr>
                | Some written \<Rightarrow>
                    \<lparr>searches = [(query, n)], stdout = written, ending = Exit 0\<rparr>))))"
  by (simp add: main_def max_results_arg_def print_json_def split: sum.splits option.splits)

theorem main_max_results_witness:
  \<open>py_int ''2'' = Some 2 \<and>
   main (capped (PyDict [(''title'', PyStr ''A'')])) utf_8 [''ddg_search.py'', ''test'', ''2''] =
     \<lparr>searches = [(''test'', 2)],
      stdout = ''{"success": true, "query": "test", "results": [{"title": "A", "url": "", "description": "", "source": "ddg-python"}, {"title": "A", "url": "", "description": "", "source": "ddg-python"}], "count": 2}'' @ [CHR 0x0A],
      ending = Exit 0\<rparr>\<close>
proof -
  have dumps: \<open>json_dumps False (PyDict [(''success'', PyBool True), (''query'', PyStr ''test''),
        (''results'', PyList
           [PyDict [(''title'', PyStr ''A''), (''url'', PyStr ''''),
                    (''description'', PyStr ''''), (''source'', PyStr ''ddg-python'')],
            PyDict [(''title'', PyStr ''A''), (''url'', PyStr ''''),
                    (''description'', PyStr ''''), (''source'', PyStr ''ddg-python'')]]),
        (''count'', PyInt 2)]) =
     Some ''{"success": true, "query": "test", "results": [{"title": "A", "url": "", "description": "", "source": "ddg-python"}, {"title": "A", "url": "", "description": "", "source": "ddg-python"}], "count": 2}''\<close>
    by code_simp
  have written: \<open>print utf_8 ''{"success": true, "query": "test", "results": [{"title": "A", "url": "", "description": "", "source": "ddg-python"}, {"title": "A", "url": "", "description": "", "source": "ddg-python"}], "count": 2}'' =
     Some (''{"success": true, "query": "test", "results": [{"title": "A", "url": "", "description": "", "source": "ddg-python"}, {"title": "A", "url": "", "description": "", "source": "ddg-python"}], "count": 2}'' @ [CHR 0x0A])\<close>
    by (simp add: print_def encodes_def)
  from main_max_results [of "capped (PyDict [(''title'', PyStr ''A'')])" utf_8
      "''ddg_search.py''" "''test''" "''2''" 2 "[]"] py_int_2
  show ?thesis
    by (simp only: capped_run dumps written sum.case option.case simp_thms)
qed

text \<open>
  C9. When the second argument is one that \<^verbatim>\<open>int\<close> rejects, the run ends by the uncaught
  \<^verbatim>\<open>ValueError\<close> of \<^verbatim>\<open>int\<close>: \<open>search\<close> was not called, so its handler had no part in it, and
  nothing was written to standard output. There are such arguments, \<^verbatim>\<open>abc\<close> for one.
\<close>

theorem main_bad_max_results:
  "2 < length argv \<Longrightarrow> py_int (argv ! 2) = None \<Longrightarrow>
   main ddgs enc argv = \<lparr>searches = [], stdout = [], ending = Uncaught_ValueError (argv ! 2)\<rparr>"
  by (simp add: main_def max_results_arg_def)

theorem main_bad_max_results_witness:
  "2 < length [''ddg_search.py'', ''test'', ''abc''] \<and> py_int ''abc'' = None \<and>
   main (scripted None (Inr StopIteration) None) utf_8 [''ddg_search.py'', ''test'', ''abc''] =
     \<lparr>searches = [], stdout = [], ending = Uncaught_ValueError ''abc''\<rparr>"
proof -
  have bad: "py_int ([''ddg_search.py'', ''test'', ''abc''] ! 2) = None"
    by (simp add: py_int_abc)
  have len: "2 < length [''ddg_search.py'', ''test'', ''abc'']"
    by simp
  from main_bad_max_results [OF len bad, of "scripted None (Inr StopIteration) None" utf_8] bad
  show ?thesis by simp
qed

end
